theory Spec2Isabelle
  imports Main
begin

section \<open>Values of the Python program\<close>

text \<open>
  The module \<^verbatim>\<open>partitions.py\<close> is dynamically typed: \<^verbatim>\<open>from_json\<close> takes any
  value, a Group's name and a partition's scheme are whatever the caller passed. The
  type \<open>pyval\<close> holds the JSON-like values (None, booleans, integers, strings, lists,
  dicts with string keys) and the instances of the three classes of the module.
  Floating point numbers are left out.

  A dict is the list of its items in iteration order; the keys of a dict are distinct.
  A \<open>Group\<close> is the namedtuple \<^verbatim>\<open>Group(id, name)\<close>: its id is an integer, since
  \<^verbatim>\<open>__new__\<close> stores \<^verbatim>\<open>int(id)\<close>. A \<open>UserPartition\<close> is the namedtuple
  \<^verbatim>\<open>UserPartition(id, name, description, groups, scheme)\<close>; its groups are taken to
  be a list of Groups. A scheme instance (\<^verbatim>\<open>UserPartitionScheme\<close>) holds the
  extension it was built from, or None.
\<close>

datatype extension = Extension (ext_name: string)

datatype pyval =
    PyNone
  | PyBool bool
  | PyInt int
  | PyStr string
  | PyList "pyval list"
  | PyDict "(string \<times> pyval) list"
  | GroupV group
  | SchemeV "extension option"
  | UserPartitionV user_partition
and group = Group (group_id: int) (group_name: pyval)
and user_partition =
  UserPartition (up_id: int) (up_name: pyval) (up_description: pyval)
    (up_groups: "group list") (up_scheme: pyval)

text \<open>
  Exceptions. \<open>TypeError fmt args\<close> is an error raised by the module itself:
  \<^verbatim>\<open>raise TypeError(fmt.format(*args))\<close>, kept as the format string and its arguments
  (the text of \<^verbatim>\<open>str(value)\<close> is not modelled). The others are raised by the
  interpreter: a \<^verbatim>\<open>TypeError\<close> of a built-in operation on an operand it does not
  support, the \<^verbatim>\<open>ValueError\<close> of \<^verbatim>\<open>int(s)\<close> on a string that is not an integer
  literal, the \<^verbatim>\<open>KeyError\<close> of a dict without the key, and the
  \<^verbatim>\<open>AttributeError\<close> of a missing attribute.
\<close>

datatype error =
    TypeError string "pyval list"
  | BuiltinTypeError string pyval
  | ValueError string
  | KeyError string
  | AttributeError pyval string

fun is_type_error :: "error \<Rightarrow> bool" where
  "is_type_error (TypeError fmt args) = True"
| "is_type_error (BuiltinTypeError opn v) = True"
| "is_type_error (ValueError s) = False"
| "is_type_error (KeyError k) = False"
| "is_type_error (AttributeError v a) = False"

text \<open>
  What the module uses and does not define: the parser of \<^verbatim>\<open>int()\<close> for strings
  (\<open>None\<close> where it raises \<^verbatim>\<open>ValueError\<close>), and the stevedore
  \<^verbatim>\<open>ExtensionManager\<close> of the namespace \<^verbatim>\<open>openedx.user_partition_scheme\<close>:
  \<open>getitem\<close> is \<^verbatim>\<open>manager[name]\<close> (\<open>None\<close> for \<^verbatim>\<open>KeyError\<close>), \<open>plugin e\<close> is
  the value of the call \<^verbatim>\<open>e.plugin(extension=e)\<close>. The manager is created on the
  first lookup and kept in \<^verbatim>\<open>_SCHEME_EXTENSIONS\<close>; the lookups see the same manager
  either way.
\<close>

record env =
  int_literal :: "string \<Rightarrow> int option"
  getitem :: "string \<Rightarrow> extension option"
  plugin :: "extension \<Rightarrow> pyval"

text \<open>The class attribute \<^verbatim>\<open>UserPartition._SCHEMES\<close>: schemes cached by name.\<close>

type_synonym schemes = "string \<rightharpoonup> pyval"

section \<open>Built-in operations\<close>

text \<open>Truth value of \<^verbatim>\<open>not v\<close>: empty containers, zero, False and None are falsy;
  a namedtuple with fields and a plain object are truthy.\<close>

fun truthy :: "pyval \<Rightarrow> bool" where
  "truthy PyNone = False"
| "truthy (PyBool b) = b"
| "truthy (PyInt n) = (n \<noteq> 0)"
| "truthy (PyStr s) = (s \<noteq> [])"
| "truthy (PyList xs) = (xs \<noteq> [])"
| "truthy (PyDict kvs) = (kvs \<noteq> [])"
| "truthy (GroupV g) = True"
| "truthy (SchemeV e) = True"
| "truthy (UserPartitionV p) = True"

text \<open>\<^verbatim>\<open>v == n\<close> for an integer \<open>n\<close>: booleans are the integers 0 and 1.\<close>

fun py_eq_int :: "pyval \<Rightarrow> int \<Rightarrow> bool" where
  "py_eq_int (PyInt m) n = (m = n)"
| "py_eq_int (PyBool b) n = ((if b then 1 else 0) = n)"
| "py_eq_int v n = False"

text \<open>\<^verbatim>\<open>int(v)\<close>.\<close>

fun py_int :: "env \<Rightarrow> pyval \<Rightarrow> error + int" where
  "py_int E (PyInt n) = Inr n"
| "py_int E (PyBool b) = Inr (if b then 1 else 0)"
| "py_int E (PyStr s) = (case int_literal E s of None \<Rightarrow> Inl (ValueError s) | Some n \<Rightarrow> Inr n)"
| "py_int E v = Inl (BuiltinTypeError ''int'' v)"

text \<open>\<^verbatim>\<open>key in v\<close> for a string \<open>key\<close>: a key of a dict, an element of a list or
  tuple, a substring of a string.\<close>

fun substring :: "string \<Rightarrow> string \<Rightarrow> bool" where
  "substring key [] = (key = [])"
| "substring key (c # s) = (take (length key) (c # s) = key \<or> substring key s)"

fun py_contains :: "pyval \<Rightarrow> string \<Rightarrow> error + bool" where
  "py_contains (PyDict kvs) key = Inr (key \<in> set (map fst kvs))"
| "py_contains (PyList xs) key = Inr (PyStr key \<in> set xs)"
| "py_contains (PyStr s) key = Inr (substring key s)"
| "py_contains (GroupV g) key = Inr (group_name g = PyStr key)"
| "py_contains (UserPartitionV p) key =
     Inr (PyStr key \<in> {up_name p, up_description p, up_scheme p})"
| "py_contains v key = Inl (BuiltinTypeError ''in'' v)"

text \<open>\<^verbatim>\<open>v[key]\<close> for a string \<open>key\<close>: only a dict has string indices.\<close>

fun py_getitem :: "pyval \<Rightarrow> string \<Rightarrow> error + pyval" where
  "py_getitem (PyDict kvs) key =
     (case map_of kvs key of None \<Rightarrow> Inl (KeyError key) | Some v \<Rightarrow> Inr v)"
| "py_getitem v key = Inl (BuiltinTypeError ''getitem'' v)"

text \<open>The elements \<^verbatim>\<open>for x in v\<close> runs through.\<close>

fun py_iter :: "pyval \<Rightarrow> error + pyval list" where
  "py_iter (PyList xs) = Inr xs"
| "py_iter (PyDict kvs) = Inr (map (\<lambda>kv. PyStr (fst kv)) kvs)"
| "py_iter (PyStr s) = Inr (map (\<lambda>c. PyStr [c]) s)"
| "py_iter (GroupV g) = Inr [PyInt (group_id g), group_name g]"
| "py_iter (UserPartitionV p) =
     Inr [PyInt (up_id p), up_name p, up_description p, PyList (map GroupV (up_groups p)),
          up_scheme p]"
| "py_iter v = Inl (BuiltinTypeError ''iter'' v)"

text \<open>Whether \<^verbatim>\<open>hash(v)\<close> succeeds, as a dict lookup needs: lists and dicts are
  unhashable, a tuple is hashable when its fields are.\<close>

fun hashable :: "pyval \<Rightarrow> bool" where
  "hashable (PyList xs) = False"
| "hashable (PyDict kvs) = False"
| "hashable (GroupV (Group i n)) = hashable n"
| "hashable (UserPartitionV p) = False"
| "hashable v = True"

text \<open>\<^verbatim>\<open>v.name\<close>. For a scheme it is the property of \<^verbatim>\<open>UserPartitionScheme\<close>:
  \<^verbatim>\<open>self.extension.name if self.extension else None\<close>.\<close>

fun py_name :: "pyval \<Rightarrow> error + pyval" where
  "py_name (SchemeV None) = Inr PyNone"
| "py_name (SchemeV (Some e)) = Inr (PyStr (ext_name e))"
| "py_name (GroupV g) = Inr (group_name g)"
| "py_name (UserPartitionV p) = Inr (up_name p)"
| "py_name v = Inl (AttributeError v ''name'')"

section \<open>Group\<close>

definition Group_VERSION :: int where
  "Group_VERSION = 1"

text \<open>\<^verbatim>\<open>Group.__new__(cls, id, name)\<close>.\<close>

definition Group_new :: "env \<Rightarrow> pyval \<Rightarrow> pyval \<Rightarrow> error + group" where
  "Group_new E i n = (case py_int E i of Inl e \<Rightarrow> Inl e | Inr k \<Rightarrow> Inr (Group k n))"

text \<open>\<^verbatim>\<open>Group.to_json(self)\<close>.\<close>

definition Group_to_json :: "group \<Rightarrow> pyval" where
  "Group_to_json g =
     PyDict [(''id'', PyInt (group_id g)), (''name'', group_name g),
             (''version'', PyInt Group_VERSION)]"

text \<open>The loop \<^verbatim>\<open>for key in (...): if key not in value: raise TypeError(...)\<close> of both
  \<^verbatim>\<open>from_json\<close> functions; \<open>fmt\<close> is the format string of its message.\<close>

fun require_keys :: "string \<Rightarrow> string list \<Rightarrow> pyval \<Rightarrow> error option" where
  "require_keys fmt [] v = None"
| "require_keys fmt (key # keys) v =
     (case py_contains v key of
        Inl e \<Rightarrow> Some e
      | Inr b \<Rightarrow> if \<not> b then Some (TypeError fmt [v, PyStr key])
                else require_keys fmt keys v)"

definition Group_missing_fmt :: string where
  "Group_missing_fmt = ''Group dict {0} missing value key '{1}'' @ [CHR 0x27]"

definition Group_version_fmt :: string where
  "Group_version_fmt = ''Group dict {0} has unexpected version''"

text \<open>\<^verbatim>\<open>Group.from_json(value)\<close>.\<close>

definition Group_from_json :: "env \<Rightarrow> pyval \<Rightarrow> error + group" where
  "Group_from_json E v =
     (case v of
        GroupV g \<Rightarrow> Inr g
      | _ \<Rightarrow>
        (case require_keys Group_missing_fmt [''id'', ''name'', ''version''] v of
           Some e \<Rightarrow> Inl e
         | None \<Rightarrow>
           (case py_getitem v ''version'' of
              Inl e \<Rightarrow> Inl e
            | Inr ver \<Rightarrow>
              if \<not> py_eq_int ver Group_VERSION then Inl (TypeError Group_version_fmt [v])
              else
                (case py_getitem v ''id'' of
                   Inl e \<Rightarrow> Inl e
                 | Inr i \<Rightarrow>
                   (case py_getitem v ''name'' of
                      Inl e \<Rightarrow> Inl e
                    | Inr n \<Rightarrow> Group_new E i n)))))"

section \<open>UserPartition\<close>

definition UserPartition_VERSION :: int where
  "UserPartition_VERSION = 2"

definition VERSION_1_SCHEME :: string where
  "VERSION_1_SCHEME = ''random''"

definition Unrecognized_fmt :: string where
  "Unrecognized_fmt = ''Unrecognized scheme {0}''"

text \<open>\<^verbatim>\<open>UserPartition._SCHEMES.get(name, None)\<close>: the lookup hashes \<open>name\<close>; the keys
  of the cache are strings.\<close>

definition schemes_get :: "schemes \<Rightarrow> pyval \<Rightarrow> error + pyval" where
  "schemes_get S name =
     (if \<not> hashable name then Inl (BuiltinTypeError ''hash'' name)
      else Inr (case name of
                  PyStr n \<Rightarrow> (case S n of None \<Rightarrow> PyNone | Some scheme \<Rightarrow> scheme)
                | _ \<Rightarrow> PyNone))"

text \<open>\<^verbatim>\<open>UserPartition.get_scheme(name)\<close>. The result is the raised error or the scheme,
  and the cache afterwards. The names of the extensions are strings, so the manager
  has no extension for any other value.\<close>

definition get_scheme :: "env \<Rightarrow> schemes \<Rightarrow> pyval \<Rightarrow> (error + pyval) \<times> schemes" where
  "get_scheme E S name =
     (case schemes_get S name of
        Inl e \<Rightarrow> (Inl e, S)
      | Inr scheme \<Rightarrow>
        if \<not> truthy scheme then
          (case name of
             PyStr n \<Rightarrow>
               (case getitem E n of
                  None \<Rightarrow> (Inl (TypeError Unrecognized_fmt [name]), S)
                | Some extension \<Rightarrow> (Inr (plugin E extension), S(n \<mapsto> plugin E extension)))
           | _ \<Rightarrow> (Inl (TypeError Unrecognized_fmt [name]), S))
        else (Inr scheme, S))"

text \<open>\<^verbatim>\<open>UserPartition.__new__(cls, id, name, description, groups, scheme, scheme_id)\<close>;
  the defaults of the last two are \<open>PyNone\<close> and \<open>PyStr VERSION_1_SCHEME\<close>.\<close>

definition UserPartition_new ::
  "env \<Rightarrow> schemes \<Rightarrow> pyval \<Rightarrow> pyval \<Rightarrow> pyval \<Rightarrow> group list \<Rightarrow> pyval \<Rightarrow> pyval
     \<Rightarrow> (error + user_partition) \<times> schemes" where
  "UserPartition_new E S i n d gs scheme scheme_id =
     (case (if \<not> truthy scheme then get_scheme E S scheme_id else (Inr scheme, S)) of
        (Inl e, S') \<Rightarrow> (Inl e, S')
      | (Inr scheme', S') \<Rightarrow>
        (case py_int E i of
           Inl e \<Rightarrow> (Inl e, S')
         | Inr k \<Rightarrow> (Inr (UserPartition k n d gs scheme'), S')))"

text \<open>\<^verbatim>\<open>UserPartition.to_json(self)\<close>; reading \<^verbatim>\<open>self.scheme.name\<close> may raise.\<close>

definition UserPartition_to_json :: "user_partition \<Rightarrow> error + pyval" where
  "UserPartition_to_json p =
     (case py_name (up_scheme p) of
        Inl e \<Rightarrow> Inl e
      | Inr scheme_name \<Rightarrow>
        Inr (PyDict [(''id'', PyInt (up_id p)), (''name'', up_name p),
                     (''scheme'', scheme_name), (''description'', up_description p),
                     (''groups'', PyList (map Group_to_json (up_groups p))),
                     (''version'', PyInt UserPartition_VERSION)]))"

definition UserPartition_missing_fmt :: string where
  "UserPartition_missing_fmt = ''UserPartition dict {0} missing value key '{1}'' @ [CHR 0x27]"

definition UserPartition_missing_scheme_fmt :: string where
  "UserPartition_missing_scheme_fmt =
     ''UserPartition dict {0} missing value key 'scheme'' @ [CHR 0x27]"

definition UserPartition_version_fmt :: string where
  "UserPartition_version_fmt = ''UserPartition dict {0} has unexpected version''"

definition UserPartition_unrecognized_fmt :: string where
  "UserPartition_unrecognized_fmt = ''UserPartition dict {0} has unrecognized scheme {1}''"

text \<open>The version dispatch of \<^verbatim>\<open>UserPartition.from_json\<close> (the \<^verbatim>\<open>if\<close>/\<^verbatim>\<open>elif\<close>/\<^verbatim>\<open>else\<close>
  on \<^verbatim>\<open>value["version"]\<close>): the scheme id, or the raised error.\<close>

definition from_json_scheme_id :: "pyval \<Rightarrow> error + pyval" where
  "from_json_scheme_id v =
     (case py_getitem v ''version'' of
        Inl e \<Rightarrow> Inl e
      | Inr ver \<Rightarrow>
        if py_eq_int ver 1 then Inr (PyStr VERSION_1_SCHEME)
        else if py_eq_int ver UserPartition_VERSION then
          (case py_contains v ''scheme'' of
             Inl e \<Rightarrow> Inl e
           | Inr b \<Rightarrow>
             if \<not> b then Inl (TypeError UserPartition_missing_scheme_fmt [v])
             else py_getitem v ''scheme'')
        else Inl (TypeError UserPartition_version_fmt [v]))"

text \<open>The list comprehension \<^verbatim>\<open>[Group.from_json(g) for g in ...]\<close>: the first error
  ends it.\<close>

fun Group_from_json_list :: "env \<Rightarrow> pyval list \<Rightarrow> error + group list" where
  "Group_from_json_list E [] = Inr []"
| "Group_from_json_list E (g # gs) =
     (case Group_from_json E g of
        Inl e \<Rightarrow> Inl e
      | Inr x \<Rightarrow>
        (case Group_from_json_list E gs of
           Inl e \<Rightarrow> Inl e
         | Inr xs \<Rightarrow> Inr (x # xs)))"

text \<open>The rest of \<^verbatim>\<open>UserPartition.from_json\<close>, once the scheme id is known: the
  groups, the scheme, the guard on the scheme, the constructor.\<close>

definition from_json_build ::
  "env \<Rightarrow> schemes \<Rightarrow> pyval \<Rightarrow> pyval \<Rightarrow> (error + user_partition) \<times> schemes" where
  "from_json_build E S v scheme_id =
     (case py_getitem v ''groups'' of
        Inl e \<Rightarrow> (Inl e, S)
      | Inr gv \<Rightarrow>
        (case py_iter gv of
           Inl e \<Rightarrow> (Inl e, S)
         | Inr gs \<Rightarrow>
           (case Group_from_json_list E gs of
              Inl e \<Rightarrow> (Inl e, S)
            | Inr groups \<Rightarrow>
              (case get_scheme E S scheme_id of
                 (Inl e, S') \<Rightarrow> (Inl e, S')
               | (Inr scheme, S') \<Rightarrow>
                 if \<not> truthy scheme then
                   (Inl (TypeError UserPartition_unrecognized_fmt [v, scheme_id]), S')
                 else
                   (case py_getitem v ''id'' of
                      Inl e \<Rightarrow> (Inl e, S')
                    | Inr i \<Rightarrow>
                      (case py_getitem v ''name'' of
                         Inl e \<Rightarrow> (Inl e, S')
                       | Inr n \<Rightarrow>
                         (case py_getitem v ''description'' of
                            Inl e \<Rightarrow> (Inl e, S')
                          | Inr d \<Rightarrow>
                            UserPartition_new E S' i n d groups scheme
                              (PyStr VERSION_1_SCHEME))))))))"

text \<open>\<^verbatim>\<open>UserPartition.from_json(value)\<close>.\<close>

definition UserPartition_from_json ::
  "env \<Rightarrow> schemes \<Rightarrow> pyval \<Rightarrow> (error + user_partition) \<times> schemes" where
  "UserPartition_from_json E S v =
     (case v of
        UserPartitionV p \<Rightarrow> (Inr p, S)
      | _ \<Rightarrow>
        (case require_keys UserPartition_missing_fmt
                [''id'', ''name'', ''description'', ''version'', ''groups''] v of
           Some e \<Rightarrow> (Inl e, S)
         | None \<Rightarrow>
           (case from_json_scheme_id v of
              Inl e \<Rightarrow> (Inl e, S)
            | Inr scheme_id \<Rightarrow> from_json_build E S v scheme_id)))"

text \<open>\<^verbatim>\<open>UserPartition.get_group(self, group_id)\<close>: the loop over \<^verbatim>\<open>self.groups\<close>, with
  \<^verbatim>\<open>group.id == group_id\<close> the comparison of Python.\<close>

fun get_group_loop :: "group list \<Rightarrow> pyval \<Rightarrow> group option" where
  "get_group_loop [] gid = None"
| "get_group_loop (g # gs) gid =
     (if py_eq_int gid (group_id g) then Some g else get_group_loop gs gid)"

definition get_group :: "user_partition \<Rightarrow> pyval \<Rightarrow> group option" where
  "get_group p gid = get_group_loop (up_groups p) gid"

section \<open>A sample environment\<close>

text \<open>An environment to run the functions in. Its parser reads unsigned strings of
  digits only; \<^verbatim>\<open>int()\<close> of Python accepts more (a sign, surrounding blanks), and the
  theorems that run in this environment use strings on which the two agree. The
  manager has one extension, \<open>random\<close>, whose plugin is a scheme class.\<close>

definition decimal :: "string \<Rightarrow> int option" where
  "decimal s =
     (if s \<noteq> [] \<and> list_all (\<lambda>c. c \<in> set ''0123456789'') s
      then Some (foldl (\<lambda>n c. 10 * n + (int (of_char c) - 48)) 0 s) else None)"

definition env0 :: env where
  "env0 = \<lparr> int_literal = decimal,
            getitem = map_of [(''random'', Extension ''random'')],
            plugin = (\<lambda>e. SchemeV (Some e)) \<rparr>"

text \<open>The same environment with a plugin that is a function returning None.\<close>

definition env_none :: env where
  "env_none = \<lparr> int_literal = decimal,
                getitem = map_of [(''random'', Extension ''random'')],
                plugin = (\<lambda>e. PyNone) \<rparr>"

section \<open>Caches that come from the manager\<close>

text \<open>The cache starts empty and only \<^verbatim>\<open>get_scheme\<close> writes to it, under a name the
  manager has an extension for. So in every state the module reaches, each scheme in
  the cache that counts as present (a truthy one) is cached under such a name.\<close>

definition schemes_resolved :: "env \<Rightarrow> schemes \<Rightarrow> bool" where
  "schemes_resolved E S \<longleftrightarrow> (\<forall>n s. S n = Some s \<longrightarrow> truthy s \<longrightarrow> getitem E n \<noteq> None)"

section \<open>Lemmas on the deserializers\<close>

text \<open>The key loop on a dict: it passes when every key is there, and it stops at the
  first key that is missing, with the error for that key.\<close>

lemma require_keys_dict_present:
  "set keys \<subseteq> fst ` set kvs \<Longrightarrow> require_keys fmt keys (PyDict kvs) = None"
  by (induction keys) auto

lemma require_keys_dict_first_missing:
  assumes "k \<in> set keys" and "k \<notin> fst ` set kvs"
  shows "\<exists>pre k' post. keys = pre @ k' # post \<and> set pre \<subseteq> fst ` set kvs \<and>
            k' \<notin> fst ` set kvs \<and>
            require_keys fmt keys (PyDict kvs) = Some (TypeError fmt [PyDict kvs, PyStr k'])"
  using assms
proof (induction keys)
  case Nil
  then show ?case by simp
next
  case (Cons a keys)
  show ?case
  proof (cases "a \<in> fst ` set kvs")
    case True
    with Cons.prems have "k \<in> set keys" by auto
    from Cons.IH [OF this Cons.prems(2)] obtain pre k' post where
      "keys = pre @ k' # post" "set pre \<subseteq> fst ` set kvs" "k' \<notin> fst ` set kvs"
      "require_keys fmt keys (PyDict kvs) = Some (TypeError fmt [PyDict kvs, PyStr k'])"
      by blast
    with True have "a # keys = (a # pre) @ k' # post \<and> set (a # pre) \<subseteq> fst ` set kvs \<and>
        k' \<notin> fst ` set kvs \<and>
        require_keys fmt (a # keys) (PyDict kvs) = Some (TypeError fmt [PyDict kvs, PyStr k'])"
      by simp
    then show ?thesis by blast
  next
    case False
    then have "a # keys = [] @ a # keys \<and> set [] \<subseteq> fst ` set kvs \<and> a \<notin> fst ` set kvs \<and>
        require_keys fmt (a # keys) (PyDict kvs) = Some (TypeError fmt [PyDict kvs, PyStr a])"
      by simp
    then show ?thesis by blast
  qed
qed

lemma key_present: "map_of kvs k = Some x \<Longrightarrow> k \<in> fst ` set kvs"
  by (metis domI dom_map_of_conv_image_fst)

lemma key_absent: "k \<notin> fst ` set kvs \<Longrightarrow> map_of kvs k = None"
  by (simp add: map_of_eq_None_iff)

lemma py_eq_int_unique: "py_eq_int v m \<Longrightarrow> py_eq_int v n \<Longrightarrow> m = n"
  by (cases v) (auto split: if_splits)

text \<open>The two \<^verbatim>\<open>from_json\<close> functions on a dict that has the required keys.\<close>

lemma Group_from_json_dict:
  assumes "set [''id'', ''name'', ''version''] \<subseteq> fst ` set kvs"
  shows "Group_from_json E (PyDict kvs) =
     (case py_getitem (PyDict kvs) ''version'' of
        Inl e \<Rightarrow> Inl e
      | Inr ver \<Rightarrow>
        if \<not> py_eq_int ver Group_VERSION then Inl (TypeError Group_version_fmt [PyDict kvs])
        else
          (case py_getitem (PyDict kvs) ''id'' of
             Inl e \<Rightarrow> Inl e
           | Inr i \<Rightarrow>
             (case py_getitem (PyDict kvs) ''name'' of
                Inl e \<Rightarrow> Inl e
              | Inr n \<Rightarrow> Group_new E i n)))"
  by (simp add: Group_from_json_def require_keys_dict_present [OF assms]
      del: require_keys.simps py_getitem.simps)

lemma from_json_scheme_id_dict:
  assumes "map_of kvs ''version'' = Some ver"
  shows "from_json_scheme_id (PyDict kvs) =
     (if py_eq_int ver 1 then Inr (PyStr VERSION_1_SCHEME)
      else if py_eq_int ver 2 then
        (case map_of kvs ''scheme'' of
           None \<Rightarrow> Inl (TypeError UserPartition_missing_scheme_fmt [PyDict kvs])
         | Some sid \<Rightarrow> Inr sid)
      else Inl (TypeError UserPartition_version_fmt [PyDict kvs]))"
proof (cases "map_of kvs ''scheme''")
  case None
  then have "''scheme'' \<notin> fst ` set kvs" by (simp add: map_of_eq_None_iff)
  with None assms show ?thesis
    by (simp add: from_json_scheme_id_def UserPartition_VERSION_def)
next
  case (Some sid)
  then have "''scheme'' \<in> fst ` set kvs" by (rule key_present)
  with Some assms show ?thesis
    by (simp add: from_json_scheme_id_def UserPartition_VERSION_def)
qed

lemma UserPartition_from_json_dict:
  assumes "set [''id'', ''name'', ''description'', ''version'', ''groups''] \<subseteq> fst ` set kvs"
  shows "UserPartition_from_json E S (PyDict kvs) =
     (case from_json_scheme_id (PyDict kvs) of
        Inl e \<Rightarrow> (Inl e, S)
      | Inr sid \<Rightarrow> from_json_build E S (PyDict kvs) sid)"
  by (simp add: UserPartition_from_json_def require_keys_dict_present [OF assms]
      del: require_keys.simps)

lemma from_json_build_dict:
  assumes "map_of kvs ''groups'' = Some gv" and "py_iter gv = Inr gs"
    and "Group_from_json_list E gs = Inr groups"
    and "get_scheme E S sid = (Inr s, S')" and "truthy s"
    and "map_of kvs ''id'' = Some i" and "map_of kvs ''name'' = Some n"
    and "map_of kvs ''description'' = Some d"
  shows "from_json_build E S (PyDict kvs) sid =
           (case py_int E i of
              Inl e \<Rightarrow> (Inl e, S')
            | Inr k \<Rightarrow> (Inr (UserPartition k n d groups s), S'))"
  using assms by (simp add: from_json_build_def UserPartition_new_def)

text \<open>The scheme of a deserialized partition is the one \<^verbatim>\<open>get_scheme\<close> returned for the
  scheme id.\<close>

lemma from_json_build_scheme:
  assumes "from_json_build E S v sid = (Inr p, S')"
  shows "get_scheme E S sid = (Inr (up_scheme p), S')"
proof -
  obtain r1 S1 where g: "get_scheme E S sid = (r1, S1)" by (cases "get_scheme E S sid")
  from assms g obtain s i n d gs where s: "r1 = Inr s" "truthy s"
      "UserPartition_new E S1 i n d gs s (PyStr VERSION_1_SCHEME) = (Inr p, S')"
    by (auto simp: from_json_build_def split: sum.splits if_splits)
  from s(2,3) have "up_scheme p = s \<and> S' = S1"
    by (auto simp: UserPartition_new_def split: sum.splits)
  with g s(1) show ?thesis by simp
qed

text \<open>Serializing and reading back a Group, and a list of Groups.\<close>

lemma Group_from_json_to_json: "Group_from_json E (Group_to_json g) = Inr g"
  by (cases g) (simp add: Group_from_json_def Group_to_json_def Group_new_def Group_VERSION_def)

lemma Group_from_json_list_to_json:
  "Group_from_json_list E (map Group_to_json gs) = Inr gs"
  by (induction gs) (simp_all add: Group_from_json_to_json)

text \<open>The cache keeps coming from the manager; a name without an extension is not
  resolved.\<close>

lemma schemes_resolved_empty: "schemes_resolved E Map.empty"
  by (simp add: schemes_resolved_def)

lemma get_scheme_resolved:
  assumes "schemes_resolved E S" and "get_scheme E S name = (r, S')"
  shows "schemes_resolved E S'"
  using assms
  by (auto simp: get_scheme_def schemes_resolved_def
      split: sum.splits if_splits pyval.splits option.splits)

lemma UserPartition_new_resolved:
  assumes "schemes_resolved E S" and "UserPartition_new E S i n d gs scheme sid = (r, S')"
  shows "schemes_resolved E S'"
proof (cases "truthy scheme")
  case True
  with assms show ?thesis
    by (auto simp: UserPartition_new_def split: sum.splits)
next
  case False
  obtain r1 S1 where g: "get_scheme E S sid = (r1, S1)" by (cases "get_scheme E S sid")
  with assms(2) False have "S' = S1"
    by (auto simp: UserPartition_new_def split: sum.splits)
  with get_scheme_resolved [OF assms(1) g] show ?thesis by simp
qed

lemma from_json_build_resolved:
  assumes "schemes_resolved E S" and "from_json_build E S v sid = (r, S')"
  shows "schemes_resolved E S'"
proof -
  obtain r1 S1 where g: "get_scheme E S sid = (r1, S1)" by (cases "get_scheme E S sid")
  note S1 = get_scheme_resolved [OF assms(1) g]
  from assms(2) g have "S' = S \<or> S' = S1 \<or>
      (\<exists>i n d gs s. UserPartition_new E S1 i n d gs s (PyStr VERSION_1_SCHEME) = (r, S'))"
    by (auto simp: from_json_build_def split: sum.splits if_splits)
  with assms(1) S1 show ?thesis
    by (auto dest: UserPartition_new_resolved [OF S1])
qed

lemma UserPartition_from_json_resolved:
  assumes "schemes_resolved E S" and "UserPartition_from_json E S v = (r, S')"
  shows "schemes_resolved E S'"
proof -
  from assms(2) have "S' = S \<or> (\<exists>sid. from_json_build E S v sid = (r, S'))"
    by (auto simp: UserPartition_from_json_def split: pyval.splits option.splits sum.splits)
  with assms(1) show ?thesis
    by (auto dest: from_json_build_resolved [OF assms(1)])
qed

lemma get_scheme_unregistered:
  assumes "schemes_resolved E S" and "getitem E n = None"
  shows "get_scheme E S (PyStr n) = (Inl (TypeError Unrecognized_fmt [PyStr n]), S)"
proof -
  have "\<not> truthy (case S n of None \<Rightarrow> PyNone | Some scheme \<Rightarrow> scheme)"
    using assms by (fastforce simp: schemes_resolved_def split: option.splits)
  with assms(2) show ?thesis
    by (simp add: get_scheme_def schemes_get_def)
qed

text \<open>The format strings of the \<^verbatim>\<open>TypeError\<close>s each function raises. The built-in
  operations raise none of the module's own errors.\<close>

lemma py_contains_not_TypeError: "py_contains v k \<noteq> Inl (TypeError f a)"
  by (cases v) simp_all

lemma py_getitem_not_TypeError: "py_getitem v k \<noteq> Inl (TypeError f a)"
  by (cases v) (simp_all split: option.splits)

lemma py_iter_not_TypeError: "py_iter v \<noteq> Inl (TypeError f a)"
  by (cases v) simp_all

lemma py_int_not_TypeError: "py_int E v \<noteq> Inl (TypeError f a)"
  by (cases v) (simp_all split: option.splits)

lemma require_keys_fmt:
  "require_keys fmt keys v = Some (TypeError f a) \<Longrightarrow> f = fmt"
  by (induction keys) (auto split: sum.splits if_splits simp: py_contains_not_TypeError)

lemma Group_from_json_fmt:
  assumes "Group_from_json E v = Inl (TypeError f a)"
  shows "f = Group_missing_fmt \<or> f = Group_version_fmt"
proof (cases "\<exists>g. v = GroupV g")
  case True
  with assms show ?thesis by (auto simp: Group_from_json_def)
next
  case False
  then have *: "Group_from_json E v =
     (case require_keys Group_missing_fmt [''id'', ''name'', ''version''] v of
           Some e \<Rightarrow> Inl e
         | None \<Rightarrow>
           (case py_getitem v ''version'' of
              Inl e \<Rightarrow> Inl e
            | Inr ver \<Rightarrow>
              if \<not> py_eq_int ver Group_VERSION then Inl (TypeError Group_version_fmt [v])
              else
                (case py_getitem v ''id'' of
                   Inl e \<Rightarrow> Inl e
                 | Inr i \<Rightarrow>
                   (case py_getitem v ''name'' of
                      Inl e \<Rightarrow> Inl e
                    | Inr n \<Rightarrow> Group_new E i n))))"
    by (cases v) (auto simp: Group_from_json_def simp del: require_keys.simps)
  show ?thesis
  proof (cases "require_keys Group_missing_fmt [''id'', ''name'', ''version''] v")
    case (Some e)
    with * assms have "require_keys Group_missing_fmt [''id'', ''name'', ''version''] v =
        Some (TypeError f a)" by simp
    from require_keys_fmt [OF this] show ?thesis by simp
  next
    case None
    with * assms show ?thesis
      by (auto simp: Group_new_def py_getitem_not_TypeError py_int_not_TypeError
          split: sum.splits if_splits)
  qed
qed

lemma Group_from_json_list_fmt:
  "Group_from_json_list E vs = Inl (TypeError f a) \<Longrightarrow>
     f = Group_missing_fmt \<or> f = Group_version_fmt"
  by (induction vs) (auto split: sum.splits dest: Group_from_json_fmt)

lemma from_json_scheme_id_fmt:
  "from_json_scheme_id v = Inl (TypeError f a) \<Longrightarrow>
     f = UserPartition_missing_scheme_fmt \<or> f = UserPartition_version_fmt"
  by (auto simp: from_json_scheme_id_def py_getitem_not_TypeError py_contains_not_TypeError
      split: sum.splits if_splits)

lemma get_scheme_fmt:
  "get_scheme E S name = (Inl (TypeError f a), S') \<Longrightarrow> f = Unrecognized_fmt"
  by (auto simp: get_scheme_def schemes_get_def
      split: sum.splits if_splits pyval.splits option.splits)

lemma get_scheme_truthy:
  assumes "\<forall>n e. getitem E n = Some e \<longrightarrow> truthy (plugin E e)"
    and "get_scheme E S name = (Inr s, S')"
  shows "truthy s"
  using assms
  by (auto simp: get_scheme_def schemes_get_def
      split: sum.splits if_splits pyval.splits option.splits)

lemma UserPartition_new_truthy_fmt:
  "truthy scheme \<Longrightarrow> UserPartition_new E S i n d gs scheme sid \<noteq> (Inl (TypeError f a), S')"
  by (auto simp: UserPartition_new_def py_int_not_TypeError split: sum.splits)

lemma fmt_distinct:
  "UserPartition_unrecognized_fmt \<noteq> Group_missing_fmt"
  "UserPartition_unrecognized_fmt \<noteq> Group_version_fmt"
  "UserPartition_unrecognized_fmt \<noteq> UserPartition_missing_fmt"
  "UserPartition_unrecognized_fmt \<noteq> UserPartition_missing_scheme_fmt"
  "UserPartition_unrecognized_fmt \<noteq> UserPartition_version_fmt"
  "UserPartition_unrecognized_fmt \<noteq> Unrecognized_fmt"
  by (simp_all add: UserPartition_unrecognized_fmt_def Group_missing_fmt_def
      Group_version_fmt_def UserPartition_missing_fmt_def UserPartition_missing_scheme_fmt_def
      UserPartition_version_fmt_def Unrecognized_fmt_def)

lemma from_json_build_guard:
  assumes "\<forall>n e. getitem E n = Some e \<longrightarrow> truthy (plugin E e)"
  shows "from_json_build E S v sid \<noteq> (Inl (TypeError UserPartition_unrecognized_fmt a), S')"
proof
  assume b: "from_json_build E S v sid = (Inl (TypeError UserPartition_unrecognized_fmt a), S')"
  show False
  proof (cases "py_getitem v ''groups''")
    case (Inl e)
    with b show False by (simp add: from_json_build_def py_getitem_not_TypeError)
  next
    case gv: (Inr gv)
    show False
    proof (cases "py_iter gv")
      case (Inl e)
      with b gv show False by (simp add: from_json_build_def py_iter_not_TypeError)
    next
      case gs: (Inr gs)
      show False
      proof (cases "Group_from_json_list E gs")
        case (Inl e)
        with b gv gs have "Group_from_json_list E gs =
            Inl (TypeError UserPartition_unrecognized_fmt a)"
          by (simp add: from_json_build_def)
        from Group_from_json_list_fmt [OF this] show False by (simp add: fmt_distinct)
      next
        case groups: (Inr groups)
        obtain r S1 where g: "get_scheme E S sid = (r, S1)" by (cases "get_scheme E S sid")
        show False
        proof (cases r)
          case (Inl e)
          with b gv gs groups g have "get_scheme E S sid =
              (Inl (TypeError UserPartition_unrecognized_fmt a), S')"
            by (simp add: from_json_build_def)
          from get_scheme_fmt [OF this] show False by (simp add: fmt_distinct)
        next
          case (Inr scheme)
          with g assms have t: "truthy scheme" by (blast intro: get_scheme_truthy)
          with b gv gs groups g Inr show False
            by (auto simp: from_json_build_def py_getitem_not_TypeError
                UserPartition_new_truthy_fmt split: sum.splits)
        qed
      qed
    qed
  qed
qed

lemma UserPartition_from_json_guard:
  assumes "\<forall>n e. getitem E n = Some e \<longrightarrow> truthy (plugin E e)"
  shows "UserPartition_from_json E S v \<noteq> (Inl (TypeError UserPartition_unrecognized_fmt a), S')"
proof (cases "\<exists>p. v = UserPartitionV p")
  case True
  then show ?thesis by (auto simp: UserPartition_from_json_def)
next
  case False
  then have *: "UserPartition_from_json E S v =
        (case require_keys UserPartition_missing_fmt
                [''id'', ''name'', ''description'', ''version'', ''groups''] v of
           Some e \<Rightarrow> (Inl e, S)
         | None \<Rightarrow>
           (case from_json_scheme_id v of
              Inl e \<Rightarrow> (Inl e, S)
            | Inr scheme_id \<Rightarrow> from_json_build E S v scheme_id))"
    by (cases v) (auto simp: UserPartition_from_json_def simp del: require_keys.simps)
  show ?thesis
  proof
    assume b: "UserPartition_from_json E S v =
      (Inl (TypeError UserPartition_unrecognized_fmt a), S')"
    show False
    proof (cases "require_keys UserPartition_missing_fmt
                [''id'', ''name'', ''description'', ''version'', ''groups''] v")
      case (Some e)
      with * b have "require_keys UserPartition_missing_fmt
                [''id'', ''name'', ''description'', ''version'', ''groups''] v =
                Some (TypeError UserPartition_unrecognized_fmt a)" by simp
      from require_keys_fmt [OF this] show False by (simp add: fmt_distinct)
    next
      case None
      show False
      proof (cases "from_json_scheme_id v")
        case (Inl e)
        with * b None have "from_json_scheme_id v =
            Inl (TypeError UserPartition_unrecognized_fmt a)" by simp
        from from_json_scheme_id_fmt [OF this] show False by (simp add: fmt_distinct)
      next
        case (Inr sid)
        with * b None from_json_build_guard [OF assms, of S v sid a S'] show False by simp
      qed
    qed
  qed
qed

text \<open>The loop of \<^verbatim>\<open>get_group\<close>.\<close>

lemma get_group_loop_Some:
  "get_group_loop gs gid = Some g \<longleftrightarrow>
     (\<exists>pre post. gs = pre @ g # post \<and> py_eq_int gid (group_id g) \<and>
        (\<forall>x \<in> set pre. \<not> py_eq_int gid (group_id x)))"
proof (induction gs)
  case Nil
  then show ?case by simp
next
  case (Cons a gs)
  show ?case
  proof (cases "py_eq_int gid (group_id a)")
    case True
    have "(\<exists>pre post. a # gs = pre @ g # post \<and> py_eq_int gid (group_id g) \<and>
        (\<forall>x \<in> set pre. \<not> py_eq_int gid (group_id x))) \<longleftrightarrow> a = g"
    proof
      assume "\<exists>pre post. a # gs = pre @ g # post \<and> py_eq_int gid (group_id g) \<and>
        (\<forall>x \<in> set pre. \<not> py_eq_int gid (group_id x))"
      then obtain pre post where p: "a # gs = pre @ g # post"
        "\<forall>x \<in> set pre. \<not> py_eq_int gid (group_id x)" by blast
      show "a = g"
      proof (cases pre)
        case Nil
        with p(1) show ?thesis by simp
      next
        case (Cons b pre')
        with p(1) have "b = a" by simp
        with Cons p(2) True show ?thesis by simp
      qed
    next
      assume "a = g"
      with True have "a # gs = [] @ g # gs \<and> py_eq_int gid (group_id g) \<and>
        (\<forall>x \<in> set []. \<not> py_eq_int gid (group_id x))" by simp
      then show "\<exists>pre post. a # gs = pre @ g # post \<and> py_eq_int gid (group_id g) \<and>
        (\<forall>x \<in> set pre. \<not> py_eq_int gid (group_id x))" by blast
    qed
    with True show ?thesis by simp
  next
    case False
    have "(\<exists>pre post. a # gs = pre @ g # post \<and> py_eq_int gid (group_id g) \<and>
        (\<forall>x \<in> set pre. \<not> py_eq_int gid (group_id x))) \<longleftrightarrow>
      (\<exists>pre post. gs = pre @ g # post \<and> py_eq_int gid (group_id g) \<and>
        (\<forall>x \<in> set pre. \<not> py_eq_int gid (group_id x)))"
    proof
      assume "\<exists>pre post. a # gs = pre @ g # post \<and> py_eq_int gid (group_id g) \<and>
        (\<forall>x \<in> set pre. \<not> py_eq_int gid (group_id x))"
      then obtain pre post where p: "a # gs = pre @ g # post" "py_eq_int gid (group_id g)"
        "\<forall>x \<in> set pre. \<not> py_eq_int gid (group_id x)" by blast
      show "\<exists>pre post. gs = pre @ g # post \<and> py_eq_int gid (group_id g) \<and>
        (\<forall>x \<in> set pre. \<not> py_eq_int gid (group_id x))"
      proof (cases pre)
        case Nil
        with p(1,2) False show ?thesis by simp
      next
        case (Cons b pre')
        with p have "gs = pre' @ g # post \<and> py_eq_int gid (group_id g) \<and>
          (\<forall>x \<in> set pre'. \<not> py_eq_int gid (group_id x))" by simp
        then show ?thesis by blast
      qed
    next
      assume "\<exists>pre post. gs = pre @ g # post \<and> py_eq_int gid (group_id g) \<and>
        (\<forall>x \<in> set pre. \<not> py_eq_int gid (group_id x))"
      then obtain pre post where p: "gs = pre @ g # post" "py_eq_int gid (group_id g)"
        "\<forall>x \<in> set pre. \<not> py_eq_int gid (group_id x)" by blast
      with False have "a # gs = (a # pre) @ g # post \<and> py_eq_int gid (group_id g) \<and>
        (\<forall>x \<in> set (a # pre). \<not> py_eq_int gid (group_id x))" by simp
      then show "\<exists>pre post. a # gs = pre @ g # post \<and> py_eq_int gid (group_id g) \<and>
        (\<forall>x \<in> set pre. \<not> py_eq_int gid (group_id x))" by blast
    qed
    with False Cons.IH show ?thesis by simp
  qed
qed

lemma get_group_loop_None:
  "get_group_loop gs gid = None \<longleftrightarrow> (\<forall>g \<in> set gs. \<not> py_eq_int gid (group_id g))"
  by (induction gs) auto

text \<open>Definitions unfolded to run the functions on a concrete input.\<close>

lemmas eval_defs =
  from_json_build_def get_scheme_def schemes_get_def UserPartition_new_def env0_def
  Group_from_json_def Group_new_def Group_VERSION_def VERSION_1_SCHEME_def
  UserPartition_VERSION_def decimal_def

section \<open>C1: round trip of a UserPartition\<close>

text \<open>
  C1. Let \<open>p\<close> be a UserPartition whose scheme has a name \<open>nm\<close> (so that \<^verbatim>\<open>to_json\<close>
  returns), and let \<^verbatim>\<open>get_scheme(nm)\<close> resolve to a scheme \<open>s\<close> that counts as one (a
  truthy value). Then \<^verbatim>\<open>UserPartition.from_json(p.to_json())\<close> returns the partition
  with the id, name, description and groups of \<open>p\<close>, the groups in the same order, and
  with the scheme \<open>s\<close> that the name of \<open>p\<close>'s scheme resolves to.
\<close>

theorem UserPartition_roundtrip:
  assumes "py_name (up_scheme p) = Inr nm"
    and "get_scheme E S nm = (Inr s, S')" and "truthy s"
  shows "\<exists>j. UserPartition_to_json p = Inr j \<and>
           UserPartition_from_json E S j =
             (Inr (UserPartition (up_id p) (up_name p) (up_description p) (up_groups p) s), S')"
proof -
  let ?kvs = "[(''id'', PyInt (up_id p)), (''name'', up_name p), (''scheme'', nm),
               (''description'', up_description p),
               (''groups'', PyList (map Group_to_json (up_groups p))),
               (''version'', PyInt UserPartition_VERSION)]"
  have j: "UserPartition_to_json p = Inr (PyDict ?kvs)"
    using assms(1) by (simp add: UserPartition_to_json_def)
  have keys: "set [''id'', ''name'', ''description'', ''version'', ''groups''] \<subseteq> fst ` set ?kvs"
    by simp
  have ver: "map_of ?kvs ''version'' = Some (PyInt 2)"
    by (simp add: UserPartition_VERSION_def)
  have sid: "from_json_scheme_id (PyDict ?kvs) = Inr nm"
    by (simp add: from_json_scheme_id_dict [OF ver])
  have build: "from_json_build E S (PyDict ?kvs) nm =
      (Inr (UserPartition (up_id p) (up_name p) (up_description p) (up_groups p) s), S')"
    using from_json_build_dict [of ?kvs "PyList (map Group_to_json (up_groups p))"
        "map Group_to_json (up_groups p)" E "up_groups p" S nm s S' "PyInt (up_id p)"
        "up_name p" "up_description p"] assms(2,3)
    by (simp add: Group_from_json_list_to_json)
  have "UserPartition_from_json E S (PyDict ?kvs) =
      (Inr (UserPartition (up_id p) (up_name p) (up_description p) (up_groups p) s), S')"
    by (simp only: UserPartition_from_json_dict [OF keys] sid build sum.case)
  with j show ?thesis by blast
qed

text \<open>C1 on a partition with two groups and the scheme \<open>random\<close>: the result is the
  partition itself, and the scheme is now cached.\<close>

theorem UserPartition_roundtrip_witness:
  "UserPartition_to_json
     (UserPartition 3 (PyStr ''P'') (PyStr ''d'') [Group 0 (PyStr ''A''), Group 1 (PyStr ''B'')]
        (SchemeV (Some (Extension ''random'')))) =
     Inr (PyDict [(''id'', PyInt 3), (''name'', PyStr ''P''), (''scheme'', PyStr ''random''),
                  (''description'', PyStr ''d''),
                  (''groups'', PyList [PyDict [(''id'', PyInt 0), (''name'', PyStr ''A''),
                                                (''version'', PyInt 1)],
                                        PyDict [(''id'', PyInt 1), (''name'', PyStr ''B''),
                                                (''version'', PyInt 1)]]),
                  (''version'', PyInt 2)]) \<and>
   UserPartition_from_json env0 Map.empty
     (PyDict [(''id'', PyInt 3), (''name'', PyStr ''P''), (''scheme'', PyStr ''random''),
              (''description'', PyStr ''d''),
              (''groups'', PyList [PyDict [(''id'', PyInt 0), (''name'', PyStr ''A''),
                                            (''version'', PyInt 1)],
                                    PyDict [(''id'', PyInt 1), (''name'', PyStr ''B''),
                                            (''version'', PyInt 1)]]),
              (''version'', PyInt 2)]) =
     (Inr (UserPartition 3 (PyStr ''P'') (PyStr ''d'')
             [Group 0 (PyStr ''A''), Group 1 (PyStr ''B'')]
             (SchemeV (Some (Extension ''random'')))),
      [''random'' \<mapsto> SchemeV (Some (Extension ''random''))])"
proof -
  let ?p = "UserPartition 3 (PyStr ''P'') (PyStr ''d'')
              [Group 0 (PyStr ''A''), Group 1 (PyStr ''B'')]
              (SchemeV (Some (Extension ''random'')))"
  have n: "py_name (up_scheme ?p) = Inr (PyStr ''random'')" by simp
  have g: "get_scheme env0 Map.empty (PyStr ''random'') =
     (Inr (SchemeV (Some (Extension ''random''))),
      [''random'' \<mapsto> SchemeV (Some (Extension ''random''))])"
    by (simp add: get_scheme_def schemes_get_def env0_def)
  have t: "truthy (SchemeV (Some (Extension ''random'')))" by simp
  have j: "UserPartition_to_json ?p =
     Inr (PyDict [(''id'', PyInt 3), (''name'', PyStr ''P''), (''scheme'', PyStr ''random''),
                  (''description'', PyStr ''d''),
                  (''groups'', PyList [PyDict [(''id'', PyInt 0), (''name'', PyStr ''A''),
                                                (''version'', PyInt 1)],
                                        PyDict [(''id'', PyInt 1), (''name'', PyStr ''B''),
                                                (''version'', PyInt 1)]]),
                  (''version'', PyInt 2)])"
    by (simp add: UserPartition_to_json_def Group_to_json_def Group_VERSION_def
        UserPartition_VERSION_def)
  from UserPartition_roundtrip [OF n g t] j show ?thesis by simp
qed

section \<open>C2: the version dispatch of UserPartition.from\_json\<close>

text \<open>
  C2 as stated fails: the dispatch comes after the key loop, so a dict that lacks a
  required key never reaches it. \<^verbatim>\<open>{"version": 7}\<close> is not rejected with the
  unexpected-version error but with the missing-key error for \<open>id\<close>; a version 2
  dict with neither \<open>scheme\<close> nor \<open>groups\<close> is rejected with the error that names
  \<open>groups\<close>, not \<open>scheme\<close>; and a version 1 dict without \<open>groups\<close> is rejected
  before the scheme id \<open>random\<close> is used.
\<close>

theorem from_json_version_dispatch_counterexample:
  "UserPartition_from_json env0 Map.empty (PyDict [(''version'', PyInt 7)]) =
     (Inl (TypeError UserPartition_missing_fmt [PyDict [(''version'', PyInt 7)], PyStr ''id'']),
      Map.empty) \<and>
   UserPartition_from_json env0 Map.empty
     (PyDict [(''id'', PyInt 1), (''name'', PyStr ''P''), (''description'', PyStr ''d''),
              (''version'', PyInt 2)]) =
     (Inl (TypeError UserPartition_missing_fmt
             [PyDict [(''id'', PyInt 1), (''name'', PyStr ''P''), (''description'', PyStr ''d''),
                      (''version'', PyInt 2)], PyStr ''groups'']),
      Map.empty) \<and>
   UserPartition_from_json env0 Map.empty
     (PyDict [(''id'', PyInt 1), (''name'', PyStr ''P''), (''description'', PyStr ''d''),
              (''version'', PyInt 1)]) =
     (Inl (TypeError UserPartition_missing_fmt
             [PyDict [(''id'', PyInt 1), (''name'', PyStr ''P''), (''description'', PyStr ''d''),
                      (''version'', PyInt 1)], PyStr ''groups'']),
      Map.empty) \<and>
   UserPartition_missing_fmt \<noteq> UserPartition_version_fmt \<and>
   UserPartition_missing_fmt \<noteq> UserPartition_missing_scheme_fmt"
  by (simp add: UserPartition_from_json_def UserPartition_missing_fmt_def
      UserPartition_version_fmt_def UserPartition_missing_scheme_fmt_def)

text \<open>
  C2, amended. On a dict that has the five required keys, \<^verbatim>\<open>UserPartition.from_json\<close>
  dispatches on the value \<open>ver\<close> of \<open>version\<close>: if \<^verbatim>\<open>ver == 1\<close> it goes on with the
  scheme id \<open>random\<close>, whether or not there is a \<open>scheme\<close> key; if \<^verbatim>\<open>ver == 2\<close> it
  raises the \<^verbatim>\<open>TypeError\<close> that names the key \<open>scheme\<close> when that key is absent, and
  goes on with the value of the key as scheme id when it is there; for any other
  version it raises the unexpected-version \<^verbatim>\<open>TypeError\<close>. Going on with a scheme id is
  \<open>from_json_build\<close>, the rest of the function; the scheme of a partition it returns is
  the one \<^verbatim>\<open>get_scheme\<close> returns for that scheme id.
\<close>

theorem from_json_version_dispatch:
  assumes "set [''id'', ''name'', ''description'', ''version'', ''groups''] \<subseteq> fst ` set kvs"
    and "map_of kvs ''version'' = Some ver"
  shows "(py_eq_int ver 1 \<longrightarrow>
            UserPartition_from_json E S (PyDict kvs) =
              from_json_build E S (PyDict kvs) (PyStr ''random'') \<and>
            (UserPartition_from_json E S (PyDict kvs) = (Inr p, S') \<longrightarrow>
               get_scheme E S (PyStr ''random'') = (Inr (up_scheme p), S'))) \<and>
         (py_eq_int ver 2 \<and> ''scheme'' \<notin> fst ` set kvs \<longrightarrow>
            UserPartition_from_json E S (PyDict kvs) =
              (Inl (TypeError UserPartition_missing_scheme_fmt [PyDict kvs]), S)) \<and>
         (py_eq_int ver 2 \<and> map_of kvs ''scheme'' = Some sid \<longrightarrow>
            UserPartition_from_json E S (PyDict kvs) = from_json_build E S (PyDict kvs) sid \<and>
            (UserPartition_from_json E S (PyDict kvs) = (Inr p, S') \<longrightarrow>
               get_scheme E S sid = (Inr (up_scheme p), S'))) \<and>
         (\<not> py_eq_int ver 1 \<and> \<not> py_eq_int ver 2 \<longrightarrow>
            UserPartition_from_json E S (PyDict kvs) =
              (Inl (TypeError UserPartition_version_fmt [PyDict kvs]), S))"
proof -
  have not1: "\<not> py_eq_int ver 1" if "py_eq_int ver 2"
    using py_eq_int_unique [OF that, of 1] by auto
  show ?thesis
    using not1
    by (auto simp: UserPartition_from_json_dict [OF assms(1)]
        from_json_scheme_id_dict [OF assms(2)] VERSION_1_SCHEME_def key_absent
        dest: from_json_build_scheme)
qed

text \<open>C2, amended, on a version 1 dict without a \<open>scheme\<close> key, which deserializes with the
  scheme \<open>random\<close>, and on a version 2 dict without a \<open>scheme\<close> key.\<close>

theorem from_json_version_dispatch_witness:
  "UserPartition_from_json env0 Map.empty
     (PyDict [(''id'', PyInt 1), (''name'', PyStr ''P''), (''description'', PyStr ''d''),
              (''version'', PyInt 1),
              (''groups'', PyList [PyDict [(''id'', PyInt 0), (''name'', PyStr ''A''),
                                           (''version'', PyInt 1)]])]) =
     (Inr (UserPartition 1 (PyStr ''P'') (PyStr ''d'') [Group 0 (PyStr ''A'')]
             (SchemeV (Some (Extension ''random'')))),
      [''random'' \<mapsto> SchemeV (Some (Extension ''random''))]) \<and>
   UserPartition_from_json env0 Map.empty
     (PyDict [(''id'', PyInt 1), (''name'', PyStr ''P''), (''description'', PyStr ''d''),
              (''version'', PyInt 2), (''groups'', PyList [])]) =
     (Inl (TypeError UserPartition_missing_scheme_fmt
             [PyDict [(''id'', PyInt 1), (''name'', PyStr ''P''), (''description'', PyStr ''d''),
                      (''version'', PyInt 2), (''groups'', PyList [])]]),
      Map.empty)"
proof -
  let ?a = "[(''id'', PyInt 1), (''name'', PyStr ''P''), (''description'', PyStr ''d''),
              (''version'', PyInt 1),
              (''groups'', PyList [PyDict [(''id'', PyInt 0), (''name'', PyStr ''A''),
                                           (''version'', PyInt 1)]])]"
  let ?b = "[(''id'', PyInt 1), (''name'', PyStr ''P''), (''description'', PyStr ''d''),
              (''version'', PyInt 2), (''groups'', PyList [])]"
  have "UserPartition_from_json env0 Map.empty (PyDict ?a) =
          from_json_build env0 Map.empty (PyDict ?a) (PyStr ''random'')"
    using from_json_version_dispatch [where kvs = ?a and ver = "PyInt 1" and E = env0
        and S = Map.empty] by simp
  moreover have "UserPartition_from_json env0 Map.empty (PyDict ?b) =
          (Inl (TypeError UserPartition_missing_scheme_fmt [PyDict ?b]), Map.empty)"
    using from_json_version_dispatch [where kvs = ?b and ver = "PyInt 2" and E = env0
        and S = Map.empty] by simp
  ultimately show ?thesis
    by (simp add: eval_defs)
qed

section \<open>C3: round trip of a Group\<close>

text \<open>
  C3. Deserializing the serialized form of a Group gives the Group back: for every
  Group \<open>g\<close>, \<^verbatim>\<open>Group.from_json(g.to_json())\<close> returns a Group with the id and the
  name of \<open>g\<close>.
\<close>

theorem Group_roundtrip: "Group_from_json E (Group_to_json g) = Inr g"
proof (cases g)
  case (Group i n)
  let ?kvs = "[(''id'', PyInt i), (''name'', n), (''version'', PyInt Group_VERSION)]"
  have j: "Group_to_json g = PyDict ?kvs"
    using Group by (simp add: Group_to_json_def)
  have keys: "set [''id'', ''name'', ''version''] \<subseteq> fst ` set ?kvs"
    by simp
  have "Group_from_json E (PyDict ?kvs) = Group_new E (PyInt i) n"
    by (simp add: Group_from_json_dict [OF keys])
  also have "\<dots> = Inr (Group i n)"
    by (simp add: Group_new_def)
  finally show ?thesis
    using j Group by simp
qed

section \<open>C4: a missing key\<close>

text \<open>
  C4. If a dict lacks a required key \<open>k\<close> (\<open>id\<close>, \<open>name\<close> or \<open>version\<close> for
  \<^verbatim>\<open>Group.from_json\<close>; \<open>id\<close>, \<open>name\<close>, \<open>description\<close>, \<open>version\<close> or \<open>groups\<close> for
  \<^verbatim>\<open>UserPartition.from_json\<close>), deserialization raises the missing-key \<^verbatim>\<open>TypeError\<close>
  whose message is formatted from the dict itself and from a required key \<open>k'\<close> that the
  dict lacks: the first one in the order of the loop, all the keys \<open>pre\<close> before it
  being there. When \<open>k\<close> is the only required key the dict lacks, \<open>k'\<close> is \<open>k\<close>.
\<close>

theorem missing_key_error:
  assumes "k \<notin> fst ` set kvs"
  shows "(k \<in> set [''id'', ''name'', ''version''] \<longrightarrow>
           (\<exists>pre k' post. [''id'', ''name'', ''version''] = pre @ k' # post \<and>
              set pre \<subseteq> fst ` set kvs \<and> k' \<notin> fst ` set kvs \<and>
              Group_from_json E (PyDict kvs) =
                Inl (TypeError Group_missing_fmt [PyDict kvs, PyStr k']))) \<and>
         (k \<in> set [''id'', ''name'', ''description'', ''version'', ''groups''] \<longrightarrow>
           (\<exists>pre k' post. [''id'', ''name'', ''description'', ''version'', ''groups''] =
                pre @ k' # post \<and>
              set pre \<subseteq> fst ` set kvs \<and> k' \<notin> fst ` set kvs \<and>
              UserPartition_from_json E S (PyDict kvs) =
                (Inl (TypeError UserPartition_missing_fmt [PyDict kvs, PyStr k']), S)))"
proof (intro conjI impI)
  assume "k \<in> set [''id'', ''name'', ''version'']"
  from require_keys_dict_first_missing [OF this assms, of Group_missing_fmt]
  show "\<exists>pre k' post. [''id'', ''name'', ''version''] = pre @ k' # post \<and>
              set pre \<subseteq> fst ` set kvs \<and> k' \<notin> fst ` set kvs \<and>
              Group_from_json E (PyDict kvs) =
                Inl (TypeError Group_missing_fmt [PyDict kvs, PyStr k'])"
    unfolding Group_from_json_def by (elim exE conjE) (simp del: require_keys.simps, blast)
next
  assume "k \<in> set [''id'', ''name'', ''description'', ''version'', ''groups'']"
  from require_keys_dict_first_missing [OF this assms, of UserPartition_missing_fmt]
  show "\<exists>pre k' post. [''id'', ''name'', ''description'', ''version'', ''groups''] =
                pre @ k' # post \<and>
              set pre \<subseteq> fst ` set kvs \<and> k' \<notin> fst ` set kvs \<and>
              UserPartition_from_json E S (PyDict kvs) =
                (Inl (TypeError UserPartition_missing_fmt [PyDict kvs, PyStr k']), S)"
    unfolding UserPartition_from_json_def by (elim exE conjE) (simp del: require_keys.simps, blast)
qed

text \<open>C4 on a Group dict and on a UserPartition dict without \<open>version\<close>.\<close>

theorem missing_key_error_witness:
  "Group_from_json env0 (PyDict [(''id'', PyInt 1), (''name'', PyStr ''A'')]) =
     Inl (TypeError Group_missing_fmt
            [PyDict [(''id'', PyInt 1), (''name'', PyStr ''A'')], PyStr ''version'']) \<and>
   UserPartition_from_json env0 Map.empty
     (PyDict [(''id'', PyInt 1), (''name'', PyStr ''P''), (''description'', PyStr ''d''),
              (''groups'', PyList [])]) =
     (Inl (TypeError UserPartition_missing_fmt
            [PyDict [(''id'', PyInt 1), (''name'', PyStr ''P''), (''description'', PyStr ''d''),
                     (''groups'', PyList [])], PyStr ''version'']),
      Map.empty)"
proof -
  let ?g = "[(''id'', PyInt 1), (''name'', PyStr ''A'')]"
  let ?p = "[(''id'', PyInt 1), (''name'', PyStr ''P''), (''description'', PyStr ''d''),
             (''groups'', PyList [])]"
  have g: "''version'' \<notin> fst ` set ?g" by simp
  have p: "''version'' \<notin> fst ` set ?p" by simp
  have "\<exists>pre k post. [''id'', ''name'', ''version''] = pre @ k # post \<and>
      set pre \<subseteq> fst ` set ?g \<and> k \<notin> fst ` set ?g \<and>
      Group_from_json env0 (PyDict ?g) = Inl (TypeError Group_missing_fmt [PyDict ?g, PyStr k])"
    using missing_key_error [OF g, of env0 Map.empty] by simp
  then obtain pre k post where
    k: "[''id'', ''name'', ''version''] = pre @ k # post" "k \<notin> fst ` set ?g"
       "Group_from_json env0 (PyDict ?g) = Inl (TypeError Group_missing_fmt [PyDict ?g, PyStr k])"
    by blast
  have "k \<in> set (pre @ k # post)" by simp
  with k(1) have "k \<in> set [''id'', ''name'', ''version'']" by metis
  with k(2) have "k = ''version''" by simp
  with k(3) have 1: "Group_from_json env0 (PyDict ?g) =
       Inl (TypeError Group_missing_fmt [PyDict ?g, PyStr ''version''])" by simp
  have "\<exists>pre k post. [''id'', ''name'', ''description'', ''version'', ''groups''] =
        pre @ k # post \<and>
      set pre \<subseteq> fst ` set ?p \<and> k \<notin> fst ` set ?p \<and>
      UserPartition_from_json env0 Map.empty (PyDict ?p) =
        (Inl (TypeError UserPartition_missing_fmt [PyDict ?p, PyStr k]), Map.empty)"
    using missing_key_error [OF p, of env0 Map.empty] by simp
  then obtain pre' k' post' where
    k': "[''id'', ''name'', ''description'', ''version'', ''groups''] = pre' @ k' # post'"
       "k' \<notin> fst ` set ?p"
       "UserPartition_from_json env0 Map.empty (PyDict ?p) =
          (Inl (TypeError UserPartition_missing_fmt [PyDict ?p, PyStr k']), Map.empty)"
    by blast
  have "k' \<in> set (pre' @ k' # post')" by simp
  with k'(1) have "k' \<in> set [''id'', ''name'', ''description'', ''version'', ''groups'']"
    by metis
  with k'(2) have "k' = ''version''" by simp
  with k'(3) have 2: "UserPartition_from_json env0 Map.empty (PyDict ?p) =
          (Inl (TypeError UserPartition_missing_fmt [PyDict ?p, PyStr ''version'']), Map.empty)"
    by simp
  from 1 2 show ?thesis by (intro conjI)
qed

section \<open>C5: an unexpected version\<close>

text \<open>
  C5 as stated fails: a dict whose version is not supported and that lacks another
  required key is rejected by the key loop, which comes first, with the missing-key
  error. Here \<^verbatim>\<open>{"version": 2}\<close> for Group and \<^verbatim>\<open>{"version": 3}\<close> for UserPartition.
  And the version check is the comparison of Python: a Group dict whose version is
  \<^verbatim>\<open>True\<close> deserializes, since \<^verbatim>\<open>True == 1\<close>.
\<close>

theorem unexpected_version_counterexample:
  "Group_from_json env0 (PyDict [(''version'', PyInt 2)]) =
     Inl (TypeError Group_missing_fmt [PyDict [(''version'', PyInt 2)], PyStr ''id'']) \<and>
   UserPartition_from_json env0 Map.empty (PyDict [(''version'', PyInt 3)]) =
     (Inl (TypeError UserPartition_missing_fmt [PyDict [(''version'', PyInt 3)], PyStr ''id'']),
      Map.empty) \<and>
   Group_missing_fmt \<noteq> Group_version_fmt \<and>
   UserPartition_missing_fmt \<noteq> UserPartition_version_fmt \<and>
   Group_from_json env0
     (PyDict [(''id'', PyInt 1), (''name'', PyStr ''A''), (''version'', PyBool True)]) =
     Inr (Group 1 (PyStr ''A''))"
  by (simp add: Group_from_json_def UserPartition_from_json_def Group_missing_fmt_def
      Group_version_fmt_def UserPartition_missing_fmt_def UserPartition_version_fmt_def
      Group_new_def Group_VERSION_def)

text \<open>
  C5, amended. For a dict that has all the required keys and whose \<open>version\<close> value
  \<open>ver\<close> is not a supported one (\<^verbatim>\<open>ver != 1\<close> for Group; \<^verbatim>\<open>ver != 1\<close> and
  \<^verbatim>\<open>ver != 2\<close> for UserPartition, in the comparison of Python, for which \<^verbatim>\<open>True\<close>
  equals 1), deserialization raises the unexpected-version \<^verbatim>\<open>TypeError\<close>.
\<close>

theorem unexpected_version_error:
  assumes "map_of kvs ''version'' = Some ver"
  shows "(set [''id'', ''name'', ''version''] \<subseteq> fst ` set kvs \<and> \<not> py_eq_int ver 1 \<longrightarrow>
            Group_from_json E (PyDict kvs) = Inl (TypeError Group_version_fmt [PyDict kvs])) \<and>
         (set [''id'', ''name'', ''description'', ''version'', ''groups''] \<subseteq> fst ` set kvs \<and>
          \<not> py_eq_int ver 1 \<and> \<not> py_eq_int ver 2 \<longrightarrow>
            UserPartition_from_json E S (PyDict kvs) =
              (Inl (TypeError UserPartition_version_fmt [PyDict kvs]), S))"
proof (intro conjI impI)
  assume a: "set [''id'', ''name'', ''version''] \<subseteq> fst ` set kvs \<and> \<not> py_eq_int ver 1"
  then have "set [''id'', ''name'', ''version''] \<subseteq> fst ` set kvs" ..
  from Group_from_json_dict [OF this] a assms
  show "Group_from_json E (PyDict kvs) = Inl (TypeError Group_version_fmt [PyDict kvs])"
    by (simp add: Group_VERSION_def)
next
  assume a: "set [''id'', ''name'', ''description'', ''version'', ''groups''] \<subseteq> fst ` set kvs \<and>
          \<not> py_eq_int ver 1 \<and> \<not> py_eq_int ver 2"
  then have "set [''id'', ''name'', ''description'', ''version'', ''groups''] \<subseteq> fst ` set kvs" ..
  from UserPartition_from_json_dict [OF this] a from_json_scheme_id_dict [OF assms]
  show "UserPartition_from_json E S (PyDict kvs) =
              (Inl (TypeError UserPartition_version_fmt [PyDict kvs]), S)"
    by simp
qed

text \<open>C5, amended, on a Group dict of version 2 and a UserPartition dict of version 3.\<close>

theorem unexpected_version_error_witness:
  "Group_from_json env0 (PyDict [(''id'', PyInt 1), (''name'', PyStr ''A''), (''version'', PyInt 2)]) =
     Inl (TypeError Group_version_fmt
            [PyDict [(''id'', PyInt 1), (''name'', PyStr ''A''), (''version'', PyInt 2)]]) \<and>
   UserPartition_from_json env0 Map.empty
     (PyDict [(''id'', PyInt 1), (''name'', PyStr ''P''), (''description'', PyStr ''d''),
              (''version'', PyInt 3), (''groups'', PyList [])]) =
     (Inl (TypeError UserPartition_version_fmt
             [PyDict [(''id'', PyInt 1), (''name'', PyStr ''P''), (''description'', PyStr ''d''),
                      (''version'', PyInt 3), (''groups'', PyList [])]]),
      Map.empty)"
  using unexpected_version_error
      [of "[(''id'', PyInt 1), (''name'', PyStr ''A''), (''version'', PyInt 2)]" "PyInt 2" env0]
    unexpected_version_error
      [of "[(''id'', PyInt 1), (''name'', PyStr ''P''), (''description'', PyStr ''d''),
              (''version'', PyInt 3), (''groups'', PyList [])]" "PyInt 3" env0 Map.empty]
  by simp

section \<open>C6: an unrecognized scheme\<close>

text \<open>
  C6 as stated fails in its second half. The manager of \<open>env0\<close> has no extension
  \<open>dice\<close>. A version 1 dict that names the scheme \<open>dice\<close> deserializes all the same,
  with the scheme \<open>random\<close>: the \<open>scheme\<close> key of a version 1 dict is not read. A
  version 2 dict that names \<open>dice\<close> and holds a group without keys fails with the error
  of the group, since the groups are read before the scheme is resolved. A version 2
  dict that names \<open>dice\<close> and has no \<open>id\<close> fails in the key loop.
\<close>

theorem unrecognized_scheme_counterexample:
  "getitem env0 ''dice'' = None \<and>
   UserPartition_from_json env0 Map.empty
     (PyDict [(''id'', PyInt 1), (''name'', PyStr ''P''), (''description'', PyStr ''d''),
              (''version'', PyInt 1), (''scheme'', PyStr ''dice''), (''groups'', PyList [])]) =
     (Inr (UserPartition 1 (PyStr ''P'') (PyStr ''d'') [] (SchemeV (Some (Extension ''random'')))),
      [''random'' \<mapsto> SchemeV (Some (Extension ''random''))]) \<and>
   UserPartition_from_json env0 Map.empty
     (PyDict [(''id'', PyInt 1), (''name'', PyStr ''P''), (''description'', PyStr ''d''),
              (''version'', PyInt 2), (''scheme'', PyStr ''dice''),
              (''groups'', PyList [PyDict []])]) =
     (Inl (TypeError Group_missing_fmt [PyDict [], PyStr ''id'']), Map.empty) \<and>
   UserPartition_from_json env0 Map.empty
     (PyDict [(''version'', PyInt 2), (''scheme'', PyStr ''dice'')]) =
     (Inl (TypeError UserPartition_missing_fmt
             [PyDict [(''version'', PyInt 2), (''scheme'', PyStr ''dice'')], PyStr ''id'']),
      Map.empty) \<and>
   Group_missing_fmt \<noteq> Unrecognized_fmt \<and>
   UserPartition_missing_fmt \<noteq> Unrecognized_fmt"
  by (simp add: UserPartition_from_json_def from_json_scheme_id_def eval_defs
      Group_missing_fmt_def UserPartition_missing_fmt_def Unrecognized_fmt_def)

text \<open>
  C6, amended. In a state whose cache comes from the manager, for every name \<open>n\<close> the
  manager has no extension for, \<^verbatim>\<open>get_scheme(n)\<close> raises the \<^verbatim>\<open>TypeError\<close>
  ``Unrecognized scheme''; and \<^verbatim>\<open>UserPartition.from_json\<close> raises the same error on a
  dict that has the five required keys, for which the version dispatch selects \<open>n\<close> as
  scheme id, and whose groups deserialize.
\<close>

theorem unrecognized_scheme:
  assumes "schemes_resolved E S" and "getitem E n = None"
  shows "get_scheme E S (PyStr n) = (Inl (TypeError Unrecognized_fmt [PyStr n]), S) \<and>
         (set [''id'', ''name'', ''description'', ''version'', ''groups''] \<subseteq> fst ` set kvs \<and>
          from_json_scheme_id (PyDict kvs) = Inr (PyStr n) \<and>
          map_of kvs ''groups'' = Some gv \<and> py_iter gv = Inr gs \<and>
          Group_from_json_list E gs = Inr groups \<longrightarrow>
            UserPartition_from_json E S (PyDict kvs) =
              (Inl (TypeError Unrecognized_fmt [PyStr n]), S))"
proof (intro conjI impI)
  show "get_scheme E S (PyStr n) = (Inl (TypeError Unrecognized_fmt [PyStr n]), S)"
    by (rule get_scheme_unregistered [OF assms])
next
  assume a: "set [''id'', ''name'', ''description'', ''version'', ''groups''] \<subseteq> fst ` set kvs \<and>
          from_json_scheme_id (PyDict kvs) = Inr (PyStr n) \<and>
          map_of kvs ''groups'' = Some gv \<and> py_iter gv = Inr gs \<and>
          Group_from_json_list E gs = Inr groups"
  then have keys: "set [''id'', ''name'', ''description'', ''version'', ''groups''] \<subseteq> fst ` set kvs"
    by blast
  have "from_json_build E S (PyDict kvs) (PyStr n) =
      (Inl (TypeError Unrecognized_fmt [PyStr n]), S)"
    using a by (simp add: from_json_build_def get_scheme_unregistered [OF assms])
  with a show "UserPartition_from_json E S (PyDict kvs) =
              (Inl (TypeError Unrecognized_fmt [PyStr n]), S)"
    by (simp only: UserPartition_from_json_dict [OF keys] sum.case)
qed

text \<open>C6, amended, on the name \<open>dice\<close> and a version 2 dict that names it.\<close>

theorem unrecognized_scheme_witness:
  "get_scheme env0 Map.empty (PyStr ''dice'') =
     (Inl (TypeError Unrecognized_fmt [PyStr ''dice'']), Map.empty) \<and>
   UserPartition_from_json env0 Map.empty
     (PyDict [(''id'', PyInt 1), (''name'', PyStr ''P''), (''description'', PyStr ''d''),
              (''version'', PyInt 2), (''scheme'', PyStr ''dice''), (''groups'', PyList [])]) =
     (Inl (TypeError Unrecognized_fmt [PyStr ''dice'']), Map.empty)"
proof -
  let ?kvs = "[(''id'', PyInt 1), (''name'', PyStr ''P''), (''description'', PyStr ''d''),
              (''version'', PyInt 2), (''scheme'', PyStr ''dice''), (''groups'', PyList [])]"
  have r: "getitem env0 ''dice'' = None" by (simp add: env0_def)
  have "from_json_scheme_id (PyDict ?kvs) = Inr (PyStr ''dice'')"
    by (simp add: from_json_scheme_id_def UserPartition_VERSION_def)
  then show ?thesis
    using unrecognized_scheme [OF schemes_resolved_empty r, of ?kvs "PyList []" "[]" "[]"]
    by simp
qed

section \<open>C7: the id is coerced to an integer\<close>

text \<open>
  C7 as stated fails: for a string that is not an integer literal \<^verbatim>\<open>int()\<close> raises
  \<^verbatim>\<open>ValueError\<close>, which is not a \<^verbatim>\<open>TypeError\<close>, and the constructors let it through.
  And the UserPartition constructor resolves a scheme that was not supplied before it
  coerces the id, so with an unknown scheme id the error is the one of \<^verbatim>\<open>get_scheme\<close>.
\<close>

theorem id_coercion_counterexample:
  "Group_new env0 (PyStr ''abc'') (PyStr ''A'') = Inl (ValueError ''abc'') \<and>
   \<not> is_type_error (ValueError ''abc'') \<and>
   UserPartition_new env0 Map.empty (PyStr ''abc'') (PyStr ''P'') (PyStr ''d'') []
       (SchemeV None) (PyStr ''random'') =
     (Inl (ValueError ''abc''), Map.empty) \<and>
   UserPartition_new env0 Map.empty PyNone (PyStr ''P'') (PyStr ''d'') [] PyNone (PyStr ''dice'') =
     (Inl (TypeError Unrecognized_fmt [PyStr ''dice'']), Map.empty)"
  by (simp add: Group_new_def UserPartition_new_def get_scheme_def schemes_get_def env0_def
      decimal_def)

text \<open>
  C7, amended. When \<^verbatim>\<open>int(id)\<close> raises, it raises \<^verbatim>\<open>ValueError\<close> for a string and
  \<^verbatim>\<open>TypeError\<close> for any other value; the Group constructor fails with that error, and
  so does the UserPartition constructor once its scheme is settled (a truthy scheme
  argument, or a falsy one and \<^verbatim>\<open>get_scheme(scheme_id)\<close> returns). When \<^verbatim>\<open>int(id)\<close>
  returns \<open>k\<close>, the stored id is \<open>k\<close>.
\<close>

theorem id_coercion:
  "(py_int E i = Inl e \<longrightarrow>
      e = (case i of PyStr s \<Rightarrow> ValueError s | _ \<Rightarrow> BuiltinTypeError ''int'' i) \<and>
      Group_new E i n = Inl e \<and>
      (truthy scheme \<longrightarrow>
         UserPartition_new E S i nm d gs scheme sid = (Inl e, S)) \<and>
      (\<not> truthy scheme \<and> get_scheme E S sid = (Inr scheme', S') \<longrightarrow>
         UserPartition_new E S i nm d gs scheme sid = (Inl e, S'))) \<and>
   (py_int E i = Inr k \<longrightarrow>
      Group_new E i n = Inr (Group k n) \<and>
      (truthy scheme \<longrightarrow>
         UserPartition_new E S i nm d gs scheme sid =
           (Inr (UserPartition k nm d gs scheme), S)) \<and>
      (\<not> truthy scheme \<and> get_scheme E S sid = (Inr scheme', S') \<longrightarrow>
         UserPartition_new E S i nm d gs scheme sid =
           (Inr (UserPartition k nm d gs scheme'), S')))"
  by (cases i) (auto simp: Group_new_def UserPartition_new_def split: option.splits)

text \<open>C7, amended, on the id None, which \<^verbatim>\<open>int()\<close> rejects with \<^verbatim>\<open>TypeError\<close>, and on
  the id \<^verbatim>\<open>"12"\<close>, stored as 12.\<close>

theorem id_coercion_witness:
  "Group_new env0 PyNone (PyStr ''A'') = Inl (BuiltinTypeError ''int'' PyNone) \<and>
   UserPartition_new env0 Map.empty PyNone (PyStr ''P'') (PyStr ''d'') [] (SchemeV None)
       (PyStr ''random'') = (Inl (BuiltinTypeError ''int'' PyNone), Map.empty) \<and>
   Group_new env0 (PyStr ''12'') (PyStr ''A'') = Inr (Group 12 (PyStr ''A'')) \<and>
   UserPartition_new env0 Map.empty (PyStr ''12'') (PyStr ''P'') (PyStr ''d'') [] PyNone
       (PyStr ''random'') =
     (Inr (UserPartition 12 (PyStr ''P'') (PyStr ''d'') [] (SchemeV (Some (Extension ''random'')))),
      [''random'' \<mapsto> SchemeV (Some (Extension ''random''))])"
proof -
  have g: "get_scheme env0 Map.empty (PyStr ''random'') =
     (Inr (SchemeV (Some (Extension ''random''))),
      [''random'' \<mapsto> SchemeV (Some (Extension ''random''))])"
    by (simp add: get_scheme_def schemes_get_def env0_def)
  have i: "int_literal env0 ''12'' = Some 12"
    by (simp add: env0_def decimal_def)
  show ?thesis
    using id_coercion [where E = env0 and i = PyNone and e = "BuiltinTypeError ''int'' PyNone"
        and n = "PyStr ''A''" and scheme = "SchemeV None" and S = Map.empty
        and nm = "PyStr ''P''" and d = "PyStr ''d''" and gs = "[]" and sid = "PyStr ''random''"]
      id_coercion [where E = env0 and i = "PyStr ''12''" and k = 12
        and n = "PyStr ''A''" and scheme = PyNone and S = Map.empty
        and nm = "PyStr ''P''" and d = "PyStr ''d''" and gs = "[]" and sid = "PyStr ''random''"
        and scheme' = "SchemeV (Some (Extension ''random''))"
        and S' = "[''random'' \<mapsto> SchemeV (Some (Extension ''random''))]"]
    by (simp add: g i)
qed

section \<open>C8: get\_group\<close>

text \<open>
  C8. \<^verbatim>\<open>p.get_group(group_id)\<close> returns a Group \<open>g\<close> exactly when \<open>g\<close> is the first
  element of \<^verbatim>\<open>p.groups\<close>, in list order, whose id equals \<open>group_id\<close>: the groups are
  \<open>pre @ g # post\<close> with no match in \<open>pre\<close>. It returns None exactly when no group has
  that id. Equality is the \<^verbatim>\<open>==\<close> of Python; on an integer \<open>group_id\<close> it is equality
  of integers. The function is pure: it returns no new partition, \<open>p\<close> is unchanged.
\<close>

theorem get_group_first_match:
  "(get_group p gid = Some g \<longleftrightarrow>
      (\<exists>pre post. up_groups p = pre @ g # post \<and> py_eq_int gid (group_id g) \<and>
         (\<forall>x \<in> set pre. \<not> py_eq_int gid (group_id x)))) \<and>
   (get_group p gid = None \<longleftrightarrow> (\<forall>x \<in> set (up_groups p). \<not> py_eq_int gid (group_id x))) \<and>
   (py_eq_int (PyInt n) (group_id g) \<longleftrightarrow> group_id g = n)"
  unfolding get_group_def get_group_loop_Some get_group_loop_None by auto

text \<open>C8 on the groups 1, 2, 2: the first group with id 2 is found, id 99 is not.\<close>

theorem get_group_first_match_witness:
  "get_group (UserPartition 0 (PyStr ''P'') (PyStr ''d'')
       [Group 1 (PyStr ''A''), Group 2 (PyStr ''B''), Group 2 (PyStr ''C'')] (SchemeV None))
     (PyInt 2) = Some (Group 2 (PyStr ''B'')) \<and>
   get_group (UserPartition 0 (PyStr ''P'') (PyStr ''d'')
       [Group 1 (PyStr ''A''), Group 2 (PyStr ''B''), Group 2 (PyStr ''C'')] (SchemeV None))
     (PyInt 99) = None"
proof -
  let ?p = "UserPartition 0 (PyStr ''P'') (PyStr ''d'')
       [Group 1 (PyStr ''A''), Group 2 (PyStr ''B''), Group 2 (PyStr ''C'')] (SchemeV None)"
  have "up_groups ?p = [Group 1 (PyStr ''A'')] @ Group 2 (PyStr ''B'') # [Group 2 (PyStr ''C'')] \<and>
      py_eq_int (PyInt 2) (group_id (Group 2 (PyStr ''B''))) \<and>
      (\<forall>x \<in> set [Group 1 (PyStr ''A'')]. \<not> py_eq_int (PyInt 2) (group_id x))"
    by simp
  then have "\<exists>pre post. up_groups ?p = pre @ Group 2 (PyStr ''B'') # post \<and>
      py_eq_int (PyInt 2) (group_id (Group 2 (PyStr ''B''))) \<and>
      (\<forall>x \<in> set pre. \<not> py_eq_int (PyInt 2) (group_id x))"
    by blast
  with get_group_first_match [of ?p "PyInt 2" "Group 2 (PyStr ''B'')"]
  have 1: "get_group ?p (PyInt 2) = Some (Group 2 (PyStr ''B''))" by blast
  have "\<forall>x \<in> set (up_groups ?p). \<not> py_eq_int (PyInt 99) (group_id x)" by simp
  with get_group_first_match [of ?p "PyInt 99"]
  have "get_group ?p (PyInt 99) = None" by blast
  with 1 show ?thesis by simp
qed

section \<open>C9: the guard on the scheme in from\_json\<close>

text \<open>
  C9 as stated fails: \<^verbatim>\<open>get_scheme\<close> returns what the plugin returns, unchecked. With a
  plugin that returns None, \<^verbatim>\<open>get_scheme("random")\<close> returns None, a value the guard
  rejects, and \<^verbatim>\<open>from_json\<close> raises ``has unrecognized scheme''.
\<close>

theorem scheme_guard_counterexample:
  "get_scheme env_none Map.empty (PyStr ''random'') = (Inr PyNone, [''random'' \<mapsto> PyNone]) \<and>
   \<not> truthy PyNone \<and>
   UserPartition_from_json env_none Map.empty
     (PyDict [(''id'', PyInt 1), (''name'', PyStr ''P''), (''description'', PyStr ''d''),
              (''version'', PyInt 1), (''groups'', PyList [])]) =
     (Inl (TypeError UserPartition_unrecognized_fmt
             [PyDict [(''id'', PyInt 1), (''name'', PyStr ''P''), (''description'', PyStr ''d''),
                      (''version'', PyInt 1), (''groups'', PyList [])],
              PyStr ''random'']),
      [''random'' \<mapsto> PyNone])"
  by (simp add: UserPartition_from_json_def from_json_scheme_id_def from_json_build_def
      get_scheme_def schemes_get_def env_none_def VERSION_1_SCHEME_def)

text \<open>
  C9, amended. If every plugin the manager holds returns a truthy value, as every
  instance of a class that defines neither \<^verbatim>\<open>__nonzero__\<close> nor \<^verbatim>\<open>__len__\<close> is, then
  a scheme that \<^verbatim>\<open>get_scheme\<close> returns is truthy, whatever the cache holds, and
  \<^verbatim>\<open>UserPartition.from_json\<close> never raises ``has unrecognized scheme''.
\<close>

theorem scheme_guard_unreachable:
  assumes "\<forall>n e. getitem E n = Some e \<longrightarrow> truthy (plugin E e)"
  shows "(get_scheme E S name = (Inr s, S') \<longrightarrow> truthy s) \<and>
         UserPartition_from_json E S v \<noteq> (Inl (TypeError UserPartition_unrecognized_fmt a), S'')"
  using get_scheme_truthy [OF assms] UserPartition_from_json_guard [OF assms] by blast

text \<open>C9, amended, in \<open>env0\<close>, whose plugin builds a scheme instance.\<close>

theorem scheme_guard_unreachable_witness:
  "get_scheme env0 Map.empty (PyStr ''random'') =
     (Inr (SchemeV (Some (Extension ''random''))),
      [''random'' \<mapsto> SchemeV (Some (Extension ''random''))]) \<and>
   truthy (SchemeV (Some (Extension ''random''))) \<and>
   UserPartition_from_json env0 Map.empty
     (PyDict [(''id'', PyInt 1), (''name'', PyStr ''P''), (''description'', PyStr ''d''),
              (''version'', PyInt 1), (''groups'', PyList [])]) \<noteq>
     (Inl (TypeError UserPartition_unrecognized_fmt
             [PyDict [(''id'', PyInt 1), (''name'', PyStr ''P''), (''description'', PyStr ''d''),
                      (''version'', PyInt 1), (''groups'', PyList [])],
              PyStr ''random'']),
      [''random'' \<mapsto> SchemeV (Some (Extension ''random''))])"
proof -
  have p: "\<forall>n e. getitem env0 n = Some e \<longrightarrow> truthy (plugin env0 e)"
    by (simp add: env0_def)
  have g: "get_scheme env0 Map.empty (PyStr ''random'') =
     (Inr (SchemeV (Some (Extension ''random''))),
      [''random'' \<mapsto> SchemeV (Some (Extension ''random''))])"
    by (simp add: get_scheme_def schemes_get_def env0_def)
  from scheme_guard_unreachable [OF p, of Map.empty "PyStr ''random''"
      "SchemeV (Some (Extension ''random''))"
      "[''random'' \<mapsto> SchemeV (Some (Extension ''random''))]"] g
  show ?thesis by blast
qed

section \<open>C10: a falsy scheme argument\<close>

text \<open>
  C10. In the UserPartition constructor a falsy scheme argument, whichever it is (None,
  0, an empty string, list or dict, False), is treated as None is: the constructor
  calls \<^verbatim>\<open>get_scheme(scheme_id)\<close>, fails with its error, or stores the scheme it
  returns. A truthy scheme argument is stored as given and the cache is not touched.
\<close>

theorem falsy_scheme_is_resolved:
  "(\<not> truthy scheme \<longrightarrow>
      UserPartition_new E S i n d gs scheme sid = UserPartition_new E S i n d gs PyNone sid \<and>
      (get_scheme E S sid = (Inl e, S') \<longrightarrow>
         UserPartition_new E S i n d gs scheme sid = (Inl e, S')) \<and>
      (get_scheme E S sid = (Inr s, S') \<and> py_int E i = Inr k \<longrightarrow>
         UserPartition_new E S i n d gs scheme sid = (Inr (UserPartition k n d gs s), S'))) \<and>
   (truthy scheme \<and> py_int E i = Inr k \<longrightarrow>
      UserPartition_new E S i n d gs scheme sid = (Inr (UserPartition k n d gs scheme), S))"
  by (simp add: UserPartition_new_def)

text \<open>C10 on an empty list and on 0 as scheme (resolved from the scheme id), and on a
  non-empty string as scheme (stored as given).\<close>

theorem falsy_scheme_is_resolved_witness:
  "UserPartition_new env0 Map.empty (PyInt 7) (PyStr ''P'') (PyStr ''d'') [] (PyList [])
       (PyStr ''random'') =
     (Inr (UserPartition 7 (PyStr ''P'') (PyStr ''d'') [] (SchemeV (Some (Extension ''random'')))),
      [''random'' \<mapsto> SchemeV (Some (Extension ''random''))]) \<and>
   UserPartition_new env0 Map.empty (PyInt 7) (PyStr ''P'') (PyStr ''d'') [] (PyInt 0)
       (PyStr ''dice'') =
     (Inl (TypeError Unrecognized_fmt [PyStr ''dice'']), Map.empty) \<and>
   UserPartition_new env0 Map.empty (PyInt 7) (PyStr ''P'') (PyStr ''d'') [] (PyStr ''x'')
       (PyStr ''dice'') =
     (Inr (UserPartition 7 (PyStr ''P'') (PyStr ''d'') [] (PyStr ''x'')), Map.empty)"
proof -
  have g: "get_scheme env0 Map.empty (PyStr ''random'') =
     (Inr (SchemeV (Some (Extension ''random''))),
      [''random'' \<mapsto> SchemeV (Some (Extension ''random''))])"
    by (simp add: get_scheme_def schemes_get_def env0_def)
  have h: "get_scheme env0 Map.empty (PyStr ''dice'') =
     (Inl (TypeError Unrecognized_fmt [PyStr ''dice'']), Map.empty)"
    by (simp add: get_scheme_def schemes_get_def env0_def)
  have 1: "UserPartition_new env0 Map.empty (PyInt 7) (PyStr ''P'') (PyStr ''d'') [] (PyList [])
       (PyStr ''random'') =
     (Inr (UserPartition 7 (PyStr ''P'') (PyStr ''d'') [] (SchemeV (Some (Extension ''random'')))),
      [''random'' \<mapsto> SchemeV (Some (Extension ''random''))])"
    using falsy_scheme_is_resolved [where E = env0 and S = Map.empty and i = "PyInt 7"
        and n = "PyStr ''P''" and d = "PyStr ''d''" and gs = "[]" and scheme = "PyList []"
        and sid = "PyStr ''random''" and s = "SchemeV (Some (Extension ''random''))"
        and S' = "[''random'' \<mapsto> SchemeV (Some (Extension ''random''))]" and k = 7]
    by (auto simp: g)
  have 2: "UserPartition_new env0 Map.empty (PyInt 7) (PyStr ''P'') (PyStr ''d'') [] (PyInt 0)
       (PyStr ''dice'') =
     (Inl (TypeError Unrecognized_fmt [PyStr ''dice'']), Map.empty)"
    using falsy_scheme_is_resolved [where E = env0 and S = Map.empty and i = "PyInt 7"
        and n = "PyStr ''P''" and d = "PyStr ''d''" and gs = "[]" and scheme = "PyInt 0"
        and sid = "PyStr ''dice''" and e = "TypeError Unrecognized_fmt [PyStr ''dice'']"
        and S' = Map.empty]
    by (auto simp: h)
  have 3: "UserPartition_new env0 Map.empty (PyInt 7) (PyStr ''P'') (PyStr ''d'') [] (PyStr ''x'')
       (PyStr ''dice'') =
     (Inr (UserPartition 7 (PyStr ''P'') (PyStr ''d'') [] (PyStr ''x'')), Map.empty)"
    using falsy_scheme_is_resolved [where E = env0 and S = Map.empty and i = "PyInt 7"
        and n = "PyStr ''P''" and d = "PyStr ''d''" and gs = "[]" and scheme = "PyStr ''x''"
        and sid = "PyStr ''dice''" and k = 7]
    by simp
  from 1 2 3 show ?thesis by (intro conjI)
qed

end
